theory Spec2Isabelle
  imports Main "HOL-Library.AList"
begin

section \<open>Python values\<close>

text \<open>
  A Python \<open>str\<close> is a sequence of Unicode code points, a \<open>bytes\<close> object a sequence
  of octets. Both are modelled as lists of natural numbers; \<open>asc\<close> turns an ASCII literal
  of the source into its code points. A \<open>str\<close> holds code points below \<open>0x110000\<close>,
  lone surrogates (\<open>0xD800\<close> to \<open>0xDFFF\<close>) included.
\<close>

type_synonym ustr = "nat list"
type_synonym bytes = "nat list"

definition asc :: "string \<Rightarrow> ustr" where
  "asc cs = map of_char cs"

text \<open>The values a caller hands to the request builder: \<open>None\<close>, an int or a str.\<close>

datatype pyval = PNone | PInt int | PStr ustr

fun show_nat :: "nat \<Rightarrow> ustr" where
  "show_nat n = (if n < 10 then [48 + n] else show_nat (n div 10) @ [48 + n mod 10])"

declare show_nat.simps [simp del]

definition str_int :: "int \<Rightarrow> ustr" where
  "str_int i = (if i < 0 then 45 # show_nat (nat (- i)) else show_nat (nat i))"

text \<open>
  \<open>str(v)\<close>, which is also what an f-string does with \<open>{v}\<close>. The conversion of
  an int has no limit on the number of digits here.
\<close>

fun py_str :: "pyval \<Rightarrow> ustr" where
  "py_str PNone = asc ''None''"
| "py_str (PInt i) = str_int i"
| "py_str (PStr s) = s"

text \<open>Truth value of \<open>if v:\<close>.\<close>

fun truthy :: "pyval \<Rightarrow> bool" where
  "truthy PNone = False"
| "truthy (PInt i) = (i \<noteq> 0)"
| "truthy (PStr s) = (s \<noteq> [])"

datatype error =
    FMError int ustr
  | UnicodeEncodeError
  | IndexError
  | KeyError
  | ValueError
  | TypeError
  | XMLSyntaxError

subsection \<open>Whitespace, \<open>str.strip\<close> and \<open>int\<close>\<close>

text \<open>The code points for which \<open>str.isspace\<close> holds.\<close>

definition isspace :: "nat \<Rightarrow> bool" where
  "isspace c \<longleftrightarrow>
     (0x09 \<le> c \<and> c \<le> 0x0D) \<or> (0x1C \<le> c \<and> c \<le> 0x20) \<or> c = 0x85 \<or> c = 0xA0 \<or>
     c = 0x1680 \<or> (0x2000 \<le> c \<and> c \<le> 0x200A) \<or> c = 0x2028 \<or> c = 0x2029 \<or>
     c = 0x202F \<or> c = 0x205F \<or> c = 0x3000"

definition strip :: "ustr \<Rightarrow> ustr" where
  "strip s = rev (dropWhile isspace (rev (dropWhile isspace s)))"

definition isdigit :: "nat \<Rightarrow> bool" where
  "isdigit c \<longleftrightarrow> 48 \<le> c \<and> c \<le> 57"

text \<open>
  The digits of a decimal literal: at least one digit, single underscores allowed
  between digits. Only the ASCII digits are read as digits here; \<open>int\<close> also accepts the
  decimal digits of other scripts.
\<close>

fun parse_digits :: "ustr \<Rightarrow> nat \<Rightarrow> nat option" where
  "parse_digits [] acc = None"
| "parse_digits (c # cs) acc =
     (if isdigit c then
        (case cs of
           [] \<Rightarrow> Some (acc * 10 + (c - 48))
         | d # ds \<Rightarrow>
             if d = 95 then parse_digits ds (acc * 10 + (c - 48))
             else parse_digits cs (acc * 10 + (c - 48)))
      else None)"

text \<open>\<open>int(s)\<close> for a str: \<open>None\<close> stands for the \<open>ValueError\<close>.\<close>

definition py_int :: "ustr \<Rightarrow> int option" where
  "py_int s =
     (case strip s of
        [] \<Rightarrow> None
      | c # cs \<Rightarrow>
          if c = 45 then map_option (\<lambda>n. - int n) (parse_digits cs 0)
          else if c = 43 then map_option int (parse_digits cs 0)
          else map_option int (parse_digits (c # cs) 0))"

definition str_to_int :: "ustr \<Rightarrow> error + int" where
  "str_to_int s = (case py_int s of None \<Rightarrow> Inl ValueError | Some i \<Rightarrow> Inr i)"

text \<open>\<open>int(v)\<close> for a value of the request builder.\<close>

fun int_of_pyval :: "pyval \<Rightarrow> error + int" where
  "int_of_pyval PNone = Inl TypeError"
| "int_of_pyval (PInt i) = Inr i"
| "int_of_pyval (PStr s) = str_to_int s"

section \<open>The escape transform\<close>

text \<open>\<open>s.replace(old, new)\<close> for a pattern \<open>old\<close> of one character.\<close>

definition replace :: "nat \<Rightarrow> ustr \<Rightarrow> ustr \<Rightarrow> ustr" where
  "replace old new s = concat (map (\<lambda>c. if c = old then new else [c]) s)"

text \<open>
  \<open>html.escape(s, quote)\<close> of the standard library: five replacements in sequence,
  the ampersand first.
\<close>

definition html_escape :: "ustr \<Rightarrow> bool \<Rightarrow> ustr" where
  "html_escape s quote =
     (let s1 = replace 38 (asc ''&amp;'') s;
          s2 = replace 60 (asc ''&lt;'') s1;
          s3 = replace 62 (asc ''&gt;'') s2
      in if quote then replace 39 (asc ''&#x27;'') (replace 34 (asc ''&quot;'') s3)
         else s3)"

text \<open>\<open>s.encode('ascii', 'xmlcharrefreplace')\<close>.\<close>

definition encode_xmlcharrefreplace :: "ustr \<Rightarrow> bytes" where
  "encode_xmlcharrefreplace s =
     concat (map (\<lambda>c. if c < 128 then [c] else asc ''&#'' @ show_nat c @ asc '';'') s)"

text \<open>
  \<open>escape_unicode(ustr, quote=True)\<close>; the final \<open>decode('ascii')\<close> keeps the code points.
\<close>

definition escape_unicode :: "ustr \<Rightarrow> bool \<Rightarrow> ustr" where
  "escape_unicode ustr quote =
     replace 39 (asc ''&#39;'') (encode_xmlcharrefreplace (html_escape (strip ustr) quote))"

section \<open>Form encoding\<close>











subsection \<open>Base64\<close>





section \<open>The client\<close>

record FM =
  server :: ustr
  port :: int
  protocol :: ustr
  escrslt :: bool
  dbname :: ustr
  dbuser :: ustr
  dbpasswd :: ustr
  dbdata :: "(pyval \<times> pyval) list"
  dbparams :: "(pyval \<times> pyval) list"
  maxret :: pyval

text \<open>\<open>FM.__init__(server, port=80, protocol='http')\<close>.\<close>

definition FM_init :: "pyval \<Rightarrow> pyval \<Rightarrow> pyval \<Rightarrow> error + FM" where
  "FM_init server' port' protocol' =
     (case int_of_pyval port' of
        Inl e \<Rightarrow> Inl e
      | Inr p \<Rightarrow>
          Inr \<lparr>server = py_str server', port = p, protocol = py_str protocol',
               escrslt = False, dbname = [], dbuser = [], dbpasswd = [],
               dbdata = [], dbparams = [], maxret = PInt 50\<rparr>)"

definition dbparams_append :: "FM \<Rightarrow> pyval \<times> pyval \<Rightarrow> FM" where
  "dbparams_append s arg = s\<lparr>dbparams := dbparams s @ [(fst arg, snd arg)]\<rparr>"

definition dbdata_append :: "FM \<Rightarrow> pyval \<times> pyval \<Rightarrow> FM" where
  "dbdata_append s arg = s\<lparr>dbdata := dbdata s @ [(fst arg, snd arg)]\<rparr>"

text \<open>\<open>set_db_data(name, layout, maxret=50, response=None)\<close>.\<close>

definition set_db_data :: "FM \<Rightarrow> pyval \<Rightarrow> pyval \<Rightarrow> pyval \<Rightarrow> pyval \<Rightarrow> FM" where
  "set_db_data s name layout maxret' response =
     (let s1 = s\<lparr>dbdata := []\<rparr>;
          s2 = dbdata_append s1 (PStr (asc ''-db''), name);
          s3 = dbdata_append s2 (PStr (asc ''-lay''), layout);
          s4 = (if truthy response
                then dbdata_append s3 (PStr (asc ''-lay.response''), response) else s3)
      in s4\<lparr>maxret := maxret'\<rparr>)"

definition set_db_password :: "FM \<Rightarrow> pyval \<Rightarrow> pyval \<Rightarrow> FM" where
  "set_db_password s username password =
     s\<lparr>dbuser := py_str username, dbpasswd := py_str password\<rparr>"

text \<open>\<open>set_script(name, option=None)\<close>.\<close>

definition set_script :: "FM \<Rightarrow> pyval \<Rightarrow> pyval \<Rightarrow> FM" where
  "set_script s name option =
     (let key = asc ''-script'';
          key = (if option = PStr (asc ''prefind'') \<or> option = PStr (asc ''presort'')
                 then key @ asc ''.'' @ py_str option else key)
      in dbparams_append s (PStr key, name))"

definition set_record_id :: "FM \<Rightarrow> pyval \<Rightarrow> FM" where
  "set_record_id s recid = dbparams_append s (PStr (asc ''-recid''), recid)"

definition set_modifier_id :: "FM \<Rightarrow> pyval \<Rightarrow> FM" where
  "set_modifier_id s modid = dbparams_append s (PStr (asc ''-modid''), modid)"

definition set_logical_or :: "FM \<Rightarrow> FM" where
  "set_logical_or s = dbparams_append s (PStr (asc ''-lop''), PStr (asc ''or''))"

definition set_group_size :: "FM \<Rightarrow> pyval \<Rightarrow> error + FM" where
  "set_group_size s maxret' =
     (case int_of_pyval maxret' of Inl e \<Rightarrow> Inl e | Inr i \<Rightarrow> Inr (s\<lparr>maxret := PInt i\<rparr>))"

definition set_skip_records :: "FM \<Rightarrow> pyval \<Rightarrow> error + FM" where
  "set_skip_records s skip =
     (case int_of_pyval skip of
        Inl e \<Rightarrow> Inl e
      | Inr i \<Rightarrow> Inr (if i \<noteq> 0 then dbparams_append s (PStr (asc ''-skip''), skip) else s))"

text \<open>\<open>set_escape(value=True)\<close>.\<close>

definition set_escape :: "FM \<Rightarrow> pyval \<Rightarrow> FM" where
  "set_escape s value = s\<lparr>escrslt := truthy value\<rparr>"

text \<open>\<open>add_db_param(field, value, op=None)\<close>.\<close>

definition add_db_param :: "FM \<Rightarrow> pyval \<Rightarrow> pyval \<Rightarrow> pyval \<Rightarrow> FM" where
  "add_db_param s field value op =
     (let s1 = dbparams_append s (field, value)
      in if truthy op then dbparams_append s1 (PStr (py_str field @ asc ''.op''), op) else s1)"

definition add_db_params :: "FM \<Rightarrow> (pyval \<times> pyval) list \<Rightarrow> FM" where
  "add_db_params s fieldvalues =
     fold (\<lambda>(field, value) s'. add_db_param s' field value PNone) fieldvalues s"

text \<open>\<open>add_sort_param(field, order='ascend', priority=0)\<close>.\<close>

definition add_sort_param :: "FM \<Rightarrow> pyval \<Rightarrow> pyval \<Rightarrow> pyval \<Rightarrow> FM" where
  "add_sort_param s field order priority =
     (let s1 = dbparams_append s (PStr (asc ''-sortfield.'' @ py_str priority), field)
      in dbparams_append s1 (PStr (asc ''-sortorder.'' @ py_str priority), order))"


section \<open>Errors reported by FileMaker\<close>

definition CODES :: "(int \<times> string) list" where
  "CODES = [
    (- 1, ''Unknown error''),
    (0, ''No error''),
    (1, ''User canceled action''),
    (2, ''Memory error''),
    (3, ''Command is unavailable (for example, wrong operating system, wrong mode, etc.)''),
    (4, ''Command is unknown''),
    (5, ''Command is invalid (for example, a Set Field script step does not have a calculation specified)''),
    (6, ''File is read-only''),
    (7, ''Running out of memory''),
    (8, ''Empty result''),
    (9, ''Insufficient privileges''),
    (10, ''Requested data is missing''),
    (11, ''Name is not valid''),
    (12, ''Name already exists''),
    (13, ''File or object is in use''),
    (14, ''Out of range''),
    (15, ''Can't divide by zero''),
    (16, ''Operation failed, request retry (for example, a user query)''),
    (17, ''Attempt to convert foreign character set to UTF-16 failed''),
    (18, ''Client must provide account information to proceed''),
    (19, ''String contains characters other than A-Z, a-z, 0-9 (ASCII)''),
    (100, ''File is missing''),
    (101, ''Record is missing''),
    (102, ''Field is missing''),
    (103, ''Relationship is missing''),
    (104, ''Script is missing''),
    (105, ''Layout is missing''),
    (106, ''Table is missing''),
    (107, ''Index is missing''),
    (108, ''Value list is missing''),
    (109, ''Privilege set is missing''),
    (110, ''Related tables are missing''),
    (111, ''Field repetition is invalid''),
    (112, ''Window is missing''),
    (113, ''Function is missing''),
    (114, ''File reference is missing''),
    (130, ''Files are damaged or missing and must be reinstalled''),
    (131, ''Language pack files are missing (such as template files)''),
    (200, ''Record access is denied''),
    (201, ''Field cannot be modified''),
    (202, ''Field access is denied''),
    (203, ''No records in file to print, or password doesn't allow print access''),
    (204, ''No access to field(s) in sort order''),
    (205, ''User does not have access privileges to create new records; import will overwrite existing data''),
    (206, ''User does not have password change privileges, or file is not modifiable''),
    (207, ''User does not have sufficient privileges to change database schema, or file is not modifiable''),
    (208, ''Password does not contain enough characters''),
    (209, ''New password must be different from existing one''),
    (210, ''User account is inactive''),
    (211, ''Password has expired''),
    (212, ''Invalid user account and/or password. Please try again''),
    (213, ''User account and/or password does not exist''),
    (214, ''Too many login attempts''),
    (215, ''Administrator privileges cannot be duplicated''),
    (216, ''Guest account cannot be duplicated''),
    (217, ''User does not have sufficient privileges to modify administrator account''),
    (300, ''File is locked or in use''),
    (301, ''Record is in use by another user''),
    (302, ''Table is in use by another user''),
    (303, ''Database schema is in use by another user''),
    (304, ''Layout is in use by another user''),
    (306, ''Record modification ID does not match''),
    (400, ''Find criteria are empty''),
    (401, ''No records match the request''),
    (402, ''Selected field is not a match field for a lookup''),
    (403, ''Exceeding maximum record limit for trial version of FileMaker(tm)) Pro''),
    (404, ''Sort order is invalid''),
    (405, ''Number of records specified exceeds number of records that can be omitted''),
    (406, ''Replace/Reserialize criteria are invalid''),
    (407, ''One or both match fields are missing (invalid relationship)''),
    (408, ''Specified field has inappropriate data type for this operation''),
    (409, ''Import order is invalid''),
    (410, ''Export order is invalid''),
    (412, ''Wrong version of FileMaker(tm) Pro used to recover file''),
    (413, ''Specified field has inappropriate field type''),
    (414, ''Layout cannot display the result''),
    (415, ''Related Record Required''),
    (500, ''Date value does not meet validation entry options''),
    (501, ''Time value does not meet validation entry options''),
    (502, ''Number value does not meet validation entry options''),
    (503, ''Value in field is not within the range specified in validation entry options''),
    (504, ''Value in field is not unique as required in validation entry options''),
    (505, ''Value in field is not an existing value in the database file as required in validation entry options''),
    (506, ''Value in field is not listed on the value list specified in validation entry option''),
    (507, ''Value in field failed calculation test of validation entry option''),
    (508, ''Invalid value entered in Find mode''),
    (509, ''Field requires a valid value''),
    (510, ''Related value is empty or unavailable''),
    (511, ''Value in field exceeds maximum number of allowed characters''),
    (600, ''Print error has occurred''),
    (601, ''Combined header and footer exceed one page''),
    (602, ''Body doesn't fit on a page for current column setup''),
    (603, ''Print connection lost''),
    (700, ''File is of the wrong file type for import''),
    (706, ''EPSF file has no preview image''),
    (707, ''Graphic translator cannot be found''),
    (708, ''Can't import the file or need color monitor support to import file''),
    (709, ''QuickTime movie import failed''),
    (710, ''Unable to update QuickTime file reference because the database file is read-only''),
    (711, ''Import translator cannot be found''),
    (714, ''Password privileges do not allow the operation''),
    (715, ''Specified Excel worksheet or named range is missing''),
    (716, ''A SQL query using DELETE, INSERT, or UPDATE is not allowed for ODBC import''),
    (717, ''There is not enough XML/XSL information to proceed with the import or export''),
    (718, ''Error in parsing XML file (from Xerces)''),
    (719, ''Error in transforming XML using XSL (from Xalan)''),
    (720, ''Error when exporting; intended format does not support repeating fields''),
    (721, ''Unknown error occurred in the parser or the transformer''),
    (722, ''Cannot import data into a file that has no fields''),
    (723, ''You do not have permission to add records to or modify records in the target table''),
    (724, ''You do not have permission to add records to the target table''),
    (725, ''You do not have permission to modify records in the target table''),
    (726, ''There are more records in the import file than in the target table. Not all records were imported''),
    (727, ''There are more records in the target table than in the import file. Not all records were updated''),
    (729, ''Errors occurred during import. Records could not be imported''),
    (730, ''Unsupported Excel version. (Convert file to Excel 7.0 (Excel 95), Excel 97, 2000, or XP format and try again)''),
    (731, ''The file you are importing from contains no data''),
    (732, ''This file cannot be inserted because it contains other files''),
    (733, ''A table cannot be imported into itself''),
    (734, ''This file type cannot be displayed as a picture''),
    (735, ''This file type cannot be displayed as a picture. It will be inserted and displayed as a file 800 Unable to create file on disk''),
    (801, ''Unable to create temporary file on System disk''),
    (802, ''Unable to open file''),
    (803, ''File is single user or host cannot be found''),
    (804, ''File cannot be opened as read-only in its current state''),
    (805, ''File is damaged; use Recover command''),
    (806, ''File cannot be opened with this version of FileMaker(tm) Pro''),
    (807, ''File is not a FileMaker(tm) Pro file or is severely damaged''),
    (808, ''Cannot open file because access privileges are damaged''),
    (809, ''Disk/volume is full''),
    (810, ''Disk/volume is locked''),
    (811, ''Temporary file cannot be opened as FileMaker(tm) Pro file''),
    (813, ''Record Synchronization error on network''),
    (814, ''File(s) cannot be opened because maximum number is open''),
    (815, ''Couldn't open lookup file''),
    (816, ''Unable to convert file''),
    (817, ''Unable to open file because it does not belong to this solution''),
    (819, ''Cannot save a local copy of a remote file''),
    (820, ''File is in the process of being closed''),
    (821, ''Host forced a disconnect''),
    (822, ''FMI files not found; reinstall missing files''),
    (823, ''Cannot set file to single-user, guests are connected''),
    (824, ''File is damaged or not a FileMaker(tm) file''),
    (900, ''General spelling engine error''),
    (901, ''Main spelling dictionary not installed''),
    (902, ''Could not launch the Help system''),
    (903, ''Command cannot be used in a shared file''),
    (904, ''Command can only be used in a file hosted under FileMaker(tm) Server''),
    (905, ''No active field selected; command can only be used if there is an active field''),
    (920, ''Can't initialize the spelling engine''),
    (921, ''User dictionary cannot be loaded for editing''),
    (922, ''User dictionary cannot be found''),
    (923, ''User dictionary is read-only''),
    (951, ''An unexpected error occurred (returned only by web-published databases)''),
    (954, ''Unsupported XML grammar (returned only by web-published databases)''),
    (955, ''No database name (returned only by web-published databases)''),
    (956, ''Maximum number of database sessions exceeded (returned only by web-published databases)''),
    (957, ''Conflicting commands (returned only by web-published databases)''),
    (958, ''Parameter missing (returned only by web-published databases)''),
    (971, ''The user name is invalid''),
    (972, ''The password is invalid''),
    (973, ''The database is invalid''),
    (974, ''Permission Denied''),
    (975, ''The field has restricted access''),
    (976, ''Security is disabled''),
    (977, ''Invalid client IP address''),
    (978, ''The number of allowed guests has been exceeded''),
    (1200, ''Generic calculation error''),
    (1201, ''Too few parameters in the function''),
    (1202, ''Too many parameters in the function''),
    (1203, ''Unexpected end of calculation''),
    (1204, ''Number, text constant, field name or \"(\" expected''),
    (1205, ''Comment is not terminated with \"*/\"''),
    (1206, ''Text constant must end with a quotation mark''),
    (1207, ''Unbalanced parenthesis''),
    (1208, ''Operator missing, function not found or \"(\" not expected''),
    (1209, ''Name (such as field name or layout name) is missing''),
    (1210, ''Plug-in function has already been registered''),
    (1211, ''List usage is not allowed in this function''),
    (1212, ''An operator (for example, +, -, *) is expected here''),
    (1213, ''This variable has already been defined in the Let function''),
    (1214, ''AVERAGE, COUNT, EXTEND, GETREPETITION, MAX, MIN, NPV, STDEV, SUM and GETSUMMARY: expression found where a field alone is needed''),
    (1215, ''This parameter is an invalid Get function parameter''),
    (1216, ''Only Summary fields allowed as first argument in GETSUMMARY''),
    (1217, ''Break field is invalid''),
    (1218, ''Cannot evaluate the number''),
    (1219, ''A field cannot be used in its own formula''),
    (1220, ''Field type must be normal or calculated''),
    (1221, ''Data type must be number, date, time, or timestamp''),
    (1222, ''Calculation cannot be stored''),
    (1223, ''The function referred to does not exist''),
    (1400, ''ODBC driver initialization failed; make sure the ODBC drivers are properly installed''),
    (1401, ''Failed to allocate environment (ODBC)''),
    (1402, ''Failed to free environment (ODBC)''),
    (1403, ''Failed to disconnect (ODBC)''),
    (1404, ''Failed to allocate connection (ODBC)''),
    (1405, ''Failed to free connection (ODBC)''),
    (1406, ''Failed check for SQL API (ODBC)''),
    (1407, ''Failed to allocate statement (ODBC)''),
    (1408, ''Extended error (ODBC)''),
    (1413, ''Failed communication link (ODBC)''),
    (1414, ''SQL statement is too long''),
    (1450, ''Action requires PHP privilege extension (*)''),
    (1451, ''Action requires that current file be remote''),
    (1501, ''SMTP authentication failed''),
    (1502, ''Connection refused by SMTP server''),
    (1503, ''Error with SSL''),
    (1504, ''SMTP server requires the connection to be encrypted''),
    (1505, ''Specified authentication is not supported by SMTP server''),
    (1506, ''Email message(s) could not be sent successfully''),
    (1507, ''Unable to log in to the SMTP server''),
    (1550, ''Cannot load the plug-in, or the plug-in is not a valid plug-in''),
    (1551, ''Cannot install the plug-in; cannot delete an existing plug-in or write to the folder or disk''),
    (1626, ''Protocol is not supported''),
    (1627, ''Authentication failed''),
    (1628, ''There was an error with SSL''),
    (1629, ''Connection timed out; the timeout value is 60 seconds''),
    (1630, ''URL format is incorrect''),
    (1631, ''Connection failed''),
    (1632, ''Certificate cannot be authenticated by a supported certificate authority''),
    (1633, ''Certificate is valid but still causes an error (for example, the certificate has expired)'')
  ]"

text \<open>\<open>FMError.__init__(error=-1)\<close>, called with an int or with a message.\<close>

fun FMError_init :: "pyval \<Rightarrow> error" where
  "FMError_init (PInt code) =
     FMError code
       (asc ''FileMaker Error '' @ str_int code @ asc '': '' @
        (case map_of CODES code of Some message \<Rightarrow> asc message
         | None \<Rightarrow> asc ''Unknown error code''))"
| "FMError_init (PStr message) = FMError (- 1) message"
| "FMError_init PNone = FMError (- 1) (asc ''None'')"

section \<open>The response document\<close>

text \<open>
  An element of the parsed document, as \<open>lxml\<close> presents it: tag, attribute dictionary,
  text (\<open>None\<close> when the element has none) and child elements.
\<close>

datatype element =
  Element (tag: ustr) (attrib: "(ustr \<times> ustr) list") (etext: "ustr option")
    (children: "element list")

text \<open>\<open>xs[i]\<close> for an index that is not negative, and \<open>d[k]\<close>.\<close>

definition getitem :: "'a list \<Rightarrow> nat \<Rightarrow> error + 'a" where
  "getitem xs i = (if i < length xs then Inr (xs ! i) else Inl IndexError)"

definition dict_getitem :: "(ustr \<times> 'v) list \<Rightarrow> ustr \<Rightarrow> error + 'v" where
  "dict_getitem d k = (case map_of d k of None \<Rightarrow> Inl KeyError | Some v \<Rightarrow> Inr v)"

text \<open>\<open>d.update(other)\<close>.\<close>

definition dict_update :: "(ustr \<times> 'v) list \<Rightarrow> (ustr \<times> 'v) list \<Rightarrow> (ustr \<times> 'v) list" where
  "dict_update d other = fold (\<lambda>(k, v) d'. AList.update k v d') other d"

subsection \<open>Field metadata\<close>

text \<open>The Python types a field can be converted with; \<open>DTYPES\<close> names only \<open>str\<close>.\<close>

datatype pytype = Py_str

fun apply_pytype :: "pytype \<Rightarrow> ustr \<Rightarrow> ustr" where
  "apply_pytype Py_str v = v"

record FMField =
  name :: ustr
  maxrepeat :: int
  emptyok :: bool
  dtype :: pytype

definition DTYPES :: "(ustr \<times> pytype) list" where
  "DTYPES = [
    (asc ''NUMBER'', Py_str),
    (asc ''TEXT'', Py_str),
    (asc ''DATE'', Py_str),
    (asc ''TIME'', Py_str),
    (asc ''TIMESTAMP'', Py_str),
    (asc ''CONTAINER'', Py_str),
    (asc ''CALCULATION'', Py_str),
    (asc ''SUMMARY'', Py_str)
  ]"

text \<open>\<open>FMField.__init__(attributes)\<close>; only the lookup of the type catches its \<open>KeyError\<close>.\<close>

definition FMField_init :: "(ustr \<times> ustr) list \<Rightarrow> error + FMField" where
  "FMField_init attributes =
     (case dict_getitem attributes (asc ''NAME'') of
        Inl e \<Rightarrow> Inl e
      | Inr n \<Rightarrow>
     (case dict_getitem attributes (asc ''MAXREPEAT'') of
        Inl e \<Rightarrow> Inl e
      | Inr m \<Rightarrow>
     (case str_to_int m of
        Inl e \<Rightarrow> Inl e
      | Inr mr \<Rightarrow>
     (case dict_getitem attributes (asc ''EMPTYOK'') of
        Inl e \<Rightarrow> Inl e
      | Inr eo \<Rightarrow>
          Inr \<lparr>name = n, maxrepeat = mr, emptyok = (eo = asc ''YES''),
               dtype =
                 (case dict_getitem attributes (asc ''TYPE'') of
                    Inl e \<Rightarrow> Py_str
                  | Inr t \<Rightarrow>
                      (case dict_getitem DTYPES t of Inl e \<Rightarrow> Py_str | Inr d \<Rightarrow> d))\<rparr>))))"

subsection \<open>Records\<close>

text \<open>A value of a result record: \<open>None\<close>, an int, a str or a list of str.\<close>

datatype rvalue = VNone | VInt int | VStr ustr | VList "ustr list"

text \<open>The conversion chosen for a field (lines 397 to 400).\<close>

definition convert_type :: "bool \<Rightarrow> FMField \<Rightarrow> ustr \<Rightarrow> ustr" where
  "convert_type escrslt' md =
     (if escrslt' \<and> dtype md = Py_str then (\<lambda>v. escape_unicode v True)
      else apply_pytype (dtype md))"

text \<open>The loop over the repetitions of a field (lines 406 to 411).\<close>

fun collect :: "(ustr \<Rightarrow> ustr) \<Rightarrow> element list \<Rightarrow> ustr list" where
  "collect conv [] = []"
| "collect conv (c # cs) =
     (case etext c of None \<Rightarrow> [] | Some v \<Rightarrow> conv v # collect conv cs)"

text \<open>The value of one field of one row (lines 397 to 411).\<close>

definition decode_value :: "bool \<Rightarrow> FMField \<Rightarrow> element \<Rightarrow> error + rvalue" where
  "decode_value escrslt' md cn =
     (if maxrepeat md = 1 then
        (case getitem (children cn) 0 of
           Inl e \<Rightarrow> Inl e
         | Inr c \<Rightarrow>
             Inr (case etext c of None \<Rightarrow> VNone
                  | Some v \<Rightarrow> VStr (convert_type escrslt' md v)))
      else Inr (VList (collect (convert_type escrslt' md) (children cn))))"

text \<open>The loop over \<open>zip(metadata, row.iterchildren())\<close> (line 396 and line 412).\<close>

fun decode_fields ::
  "bool \<Rightarrow> (FMField \<times> element) list \<Rightarrow> (ustr \<times> rvalue) list \<Rightarrow> error + (ustr \<times> rvalue) list"
where
  "decode_fields escrslt' [] record = Inr record"
| "decode_fields escrslt' ((md, cn) # rest) record =
     (case decode_value escrslt' md cn of
        Inl e \<Rightarrow> Inl e
      | Inr v \<Rightarrow> decode_fields escrslt' rest (AList.update (name md) v record))"

text \<open>One row of the result set (lines 392 to 413).\<close>

definition decode_row ::
  "bool \<Rightarrow> FMField list \<Rightarrow> element \<Rightarrow> error + (ustr \<times> rvalue) list" where
  "decode_row escrslt' metadata' row =
     (case dict_getitem (attrib row) (asc ''MODID'') of
        Inl e \<Rightarrow> Inl e
      | Inr m \<Rightarrow>
     (case str_to_int m of
        Inl e \<Rightarrow> Inl e
      | Inr modid \<Rightarrow>
     (case dict_getitem (attrib row) (asc ''RECORDID'') of
        Inl e \<Rightarrow> Inl e
      | Inr r \<Rightarrow>
     (case str_to_int r of
        Inl e \<Rightarrow> Inl e
      | Inr recid \<Rightarrow>
          decode_fields escrslt' (zip metadata' (children row))
            [(asc ''MODID'', VInt modid), (asc ''RECORDID'', VInt recid)]))))"

text \<open>A loop that stops at the first error.\<close>

fun map_result :: "('a \<Rightarrow> error + 'b) \<Rightarrow> 'a list \<Rightarrow> error + 'b list" where
  "map_result f [] = Inr []"
| "map_result f (x # xs) =
     (case f x of
        Inl e \<Rightarrow> Inl e
      | Inr y \<Rightarrow> (case map_result f xs of Inl e \<Rightarrow> Inl e | Inr ys \<Rightarrow> Inr (y # ys)))"

record FMPXMLResult =
  resultset :: "(ustr \<times> rvalue) list list"
  metadata :: "FMField list"
  product :: "(ustr \<times> ustr) list"
  database :: "(ustr \<times> ustr) list"
  url :: ustr
  httpinfo :: ustr
  errorcode :: int

definition FMPXMLResult_init :: FMPXMLResult where
  "FMPXMLResult_init =
     \<lparr>resultset = [], metadata = [], product = [], database = [], url = [], httpinfo = [],
      errorcode = 0\<rparr>"

text \<open>The status code of the document (lines 369 to 372): every exception gives \<open>-1\<close>.\<close>

definition parse_errorcode :: "element \<Rightarrow> int" where
  "parse_errorcode root =
     (case getitem (children root) 0 of
        Inl e \<Rightarrow> - 1
      | Inr c \<Rightarrow>
          (case etext c of
             None \<Rightarrow> - 1
           | Some t \<Rightarrow> (case str_to_int t of Inl e \<Rightarrow> - 1 | Inr i \<Rightarrow> i)))"

text \<open>Decoding the document into the result (lines 368 to 415).\<close>

definition parse_result :: "bool \<Rightarrow> FMPXMLResult \<Rightarrow> element \<Rightarrow> error + FMPXMLResult" where
  "parse_result escrslt' results root =
     (let results = results\<lparr>errorcode := parse_errorcode root\<rparr> in
      if errorcode results \<noteq> 0 then Inl (FMError_init (PInt (errorcode results)))
      else
     (case getitem (children root) 1 of
        Inl e \<Rightarrow> Inl e
      | Inr root1 \<Rightarrow>
     (case getitem (children root) 2 of
        Inl e \<Rightarrow> Inl e
      | Inr root2 \<Rightarrow>
     (case getitem (children root) 3 of
        Inl e \<Rightarrow> Inl e
      | Inr root3 \<Rightarrow>
     (case map_result (\<lambda>field. FMField_init (attrib field)) (children root3) of
        Inl e \<Rightarrow> Inl e
      | Inr mds \<Rightarrow>
     (case getitem (children root) 4 of
        Inl e \<Rightarrow> Inl e
      | Inr root4 \<Rightarrow>
     (case map_result (decode_row escrslt' (metadata results @ mds)) (children root4) of
        Inl e \<Rightarrow> Inl e
      | Inr records \<Rightarrow>
          Inr (results\<lparr>product := dict_update (product results) (attrib root1),
                       database := dict_update (database results) (attrib root2),
                       metadata := metadata results @ mds,
                       resultset := resultset results @ records\<rparr>))))))))"

section \<open>Submitting a request\<close>

record request =
  req_url :: ustr
  req_data :: bytes
  req_headers :: "(ustr \<times> bytes) list"

text \<open>
  What \<open>urlopen\<close> does with a request: it raises \<open>HTTPError\<close> (with \<open>str(exc)\<close>) or
  \<open>URLError\<close> (with \<open>exc.reason\<close> as text), or it returns the headers and a body; the
  body is the root of the parsed document, or \<open>None\<close> when it is not well-formed XML.
\<close>

datatype outcome =
    Raises_HTTPError ustr
  | Raises_URLError ustr
  | Returns ustr "element option"


text \<open>
  The second step (lines 351 to 415) turns what the transport did into the result or
  the exception of the call.
\<close>

definition commit_response :: "bool \<Rightarrow> ustr \<Rightarrow> outcome \<Rightarrow> error + FMPXMLResult" where
  "commit_response escrslt' results_url fd =
     (case fd of
        Raises_HTTPError msg \<Rightarrow> Inl (FMError_init (PStr msg))
      | Raises_URLError reason \<Rightarrow> Inl (FMError_init (PStr (asc ''URL Error: '' @ reason)))
      | Returns info doc \<Rightarrow>
          (case doc of
             None \<Rightarrow> Inl XMLSyntaxError
           | Some root \<Rightarrow>
               parse_result escrslt'
                 (FMPXMLResult_init\<lparr>httpinfo := info, url := results_url\<rparr>) root))"







section \<open>Reading form data back\<close>

text \<open>
  The decoder against which the encoded request is read: the parser of
  \<open>application/x-www-form-urlencoded\<close> data. The body is cut at each \<open>&\<close>, empty
  pieces are dropped, a piece is cut at its first \<open>=\<close> into name and value (the value is
  empty when there is none), \<open>+\<close> becomes a space, \<open>%XX\<close> becomes an octet, and the
  octets are decoded as UTF-8. The result is \<open>None\<close> when some octets are not UTF-8.
\<close>

fun split_on :: "nat \<Rightarrow> ustr \<Rightarrow> ustr list" where
  "split_on sep [] = [[]]"
| "split_on sep (c # cs) =
     (if c = sep then [] # split_on sep cs
      else (case split_on sep cs of [] \<Rightarrow> [[c]] | p # ps \<Rightarrow> (c # p) # ps))"








section \<open>Notions used in the statements\<close>



text \<open>What \<open>escape_unicode\<close> makes of one character of the stripped text.\<close>

definition escape_char :: "bool \<Rightarrow> nat \<Rightarrow> ustr" where
  "escape_char quote c =
     (if c = 38 then asc ''&amp;''
      else if c = 60 then asc ''&lt;''
      else if c = 62 then asc ''&gt;''
      else if c = 34 then (if quote then asc ''&quot;'' else [34])
      else if c = 39 then (if quote then asc ''&#x27;'' else asc ''&#39;'')
      else if c < 128 then [c]
      else asc ''&#'' @ show_nat c @ asc '';'')"

section \<open>Example data\<close>

text \<open>The client of the module's docstring, with one field criterion pending.\<close>

definition example_client :: FM where
  "example_client =
     \<lparr>server = asc ''filemaker.domain.com'', port = 80, protocol = asc ''http'',
      escrslt = False, dbname = [], dbuser = asc ''fmuser'', dbpasswd = asc ''password'',
      dbdata = [(PStr (asc ''-db''), PStr (asc ''Test'')),
                (PStr (asc ''-lay''), PStr (asc ''data entry''))],
      dbparams = [(PStr (asc ''LAST''), PStr (asc ''Doe'')),
                  (PStr (asc ''LAST.op''), PStr (asc ''bw''))],
      maxret = PInt 50\<rparr>"


text \<open>A field with three repetitions, and a column in which the third one has no text.\<close>

definition example_repeating_field :: FMField where
  "example_repeating_field =
     \<lparr>name = asc ''PHONE'', maxrepeat = 3, emptyok = True, dtype = Py_str\<rparr>"

definition example_column :: element where
  "example_column =
     Element (asc ''COL'') [] None
       [Element (asc ''DATA'') [] (Some (asc ''555-1'')) [],
        Element (asc ''DATA'') [] (Some (asc ''555-2'')) [],
        Element (asc ''DATA'') [] None []]"



text \<open>
  The document of a find that gives one record: status 0, one field \<open>LAST\<close>, one row
  with record id 7, modification id 2 and the value \<open>Doe\<close>.
\<close>

definition example_document :: element where
  "example_document =
     Element (asc ''FMPXMLRESULT'') [] None
       [Element (asc ''ERRORCODE'') [] (Some (asc ''0'')) [],
        Element (asc ''PRODUCT'') [(asc ''NAME'', asc ''FileMaker Web Publishing Engine'')] None [],
        Element (asc ''DATABASE'') [(asc ''LAYOUT'', asc ''data entry''), (asc ''NAME'', asc ''Test'')]
          None [],
        Element (asc ''METADATA'') [] None
          [Element (asc ''FIELD'')
             [(asc ''EMPTYOK'', asc ''YES''), (asc ''MAXREPEAT'', asc ''1''),
              (asc ''NAME'', asc ''LAST''), (asc ''TYPE'', asc ''TEXT'')] None []],
        Element (asc ''RESULTSET'') [(asc ''FOUND'', asc ''1'')] None
          [Element (asc ''ROW'') [(asc ''MODID'', asc ''2''), (asc ''RECORDID'', asc ''7'')] None
             [Element (asc ''COL'') [] None
                [Element (asc ''DATA'') [] (Some (asc ''Doe'')) []]]]]"


section \<open>Selecting database and layout\<close>

text \<open>
  Claim C6. For every client, \<open>set_db_data\<close> replaces the database selection by the
  \<open>-db\<close> and \<open>-lay\<close> pairs, followed by the \<open>-lay.response\<close> pair when a response
  layout is given, sets the limit of records to the given one, and changes nothing else:
  the pending parameters stay as they were.
\<close>

theorem set_db_data_selection:
  "set_db_data s nm layout mr response =
     s\<lparr>dbdata :=
          [(PStr (asc ''-db''), nm), (PStr (asc ''-lay''), layout)] @
          (if truthy response then [(PStr (asc ''-lay.response''), response)] else []),
        maxret := mr\<rparr>
   \<and> dbparams (set_db_data s nm layout mr response) = dbparams s"
  by (simp add: set_db_data_def dbdata_append_def Let_def)

theorem set_db_data_selection_witness:
  "dbdata (set_db_data example_client (PStr (asc ''Other'')) (PStr (asc ''web'')) (PInt 10) PNone)
     = [(PStr (asc ''-db''), PStr (asc ''Other'')), (PStr (asc ''-lay''), PStr (asc ''web''))]
   \<and> maxret (set_db_data example_client (PStr (asc ''Other'')) (PStr (asc ''web'')) (PInt 10) PNone)
     = PInt 10
   \<and> dbparams (set_db_data example_client (PStr (asc ''Other'')) (PStr (asc ''web'')) (PInt 10) PNone)
     = [(PStr (asc ''LAST''), PStr (asc ''Doe'')), (PStr (asc ''LAST.op''), PStr (asc ''bw''))]"
  using set_db_data_selection
    [of example_client "PStr (asc ''Other'')" "PStr (asc ''web'')" "PInt 10" PNone]
  by (simp add: example_client_def)

section \<open>Repeating fields\<close>

lemma collect_takeWhile:
  "collect conv cs = map (\<lambda>c. conv (the (etext c))) (takeWhile (\<lambda>c. etext c \<noteq> None) cs)"
  by (induction cs) (auto split: option.splits)

lemma convert_type_eq: "convert_type esc md v = (if esc then escape_unicode v True else v)"
  by (cases "dtype md") (simp add: convert_type_def)

text \<open>
  Claim C3. For a field whose repetition count is greater than 1, the decoded value is
  the list of the texts of the sub-elements, in order, up to the first sub-element
  without text (each text escaped when output escaping is on). With three repetitions
  of which the first two carry text, the value has two elements.
\<close>

theorem repeating_field_value:
  "maxrepeat md > 1 \<Longrightarrow>
   decode_value esc md cn =
     Inr (VList (map (\<lambda>c. if esc then escape_unicode (the (etext c)) True else the (etext c))
                   (takeWhile (\<lambda>c. etext c \<noteq> None) (children cn))))"
  by (simp add: decode_value_def collect_takeWhile convert_type_eq)

theorem repeating_field_value_witness:
  "maxrepeat example_repeating_field > 1 \<and>
   decode_value False example_repeating_field example_column
     = Inr (VList [asc ''555-1'', asc ''555-2''])"
  using repeating_field_value [of example_repeating_field False example_column]
  by (simp add: example_repeating_field_def example_column_def)

section \<open>Field metadata\<close>

lemma py_int_1: "py_int (asc ''1'') = Some 1"
  by (simp add: py_int_def strip_def isspace_def isdigit_def asc_def)






section \<open>The status code\<close>

lemma map_of_hit: "map_of ((k, v) # ps) k = Some v"
  by simp

lemma map_of_skip: "a \<noteq> k \<Longrightarrow> map_of ps k = r \<Longrightarrow> map_of ((a, b) # ps) k = r"
  by simp


lemma CODES_401: "map_of CODES 401 = Some ''No records match the request''"
  unfolding CODES_def by (rule map_of_hit | (rule map_of_skip, simp))+



lemma FMError_init_401:
  "FMError_init (PInt 401) =
     FMError 401 (asc ''FileMaker Error 401: No records match the request'')"
  by (simp add: CODES_401 str_int_def show_nat.simps asc_def)



section \<open>When form encoding succeeds\<close>













section \<open>Form data read back\<close>
















lemma split_on_nonempty: "split_on sep s \<noteq> []"
  by (induction s) (auto split: list.splits)























section \<open>The escape transform, character by character\<close>

lemma show_nat_digits: "set (show_nat n) \<subseteq> {48..57}"
proof (induction n rule: show_nat.induct)
  case (1 n)
  show ?case
  proof (cases "n < 10")
    case True
    then show ?thesis by (subst show_nat.simps) auto
  next
    case False
    have "n mod 10 < 10" by simp
    then have "48 + n mod 10 \<in> {48..57}" by auto
    with 1 False show ?thesis by (subst show_nat.simps) auto
  qed
qed

lemma show_nat_nonempty: "show_nat n \<noteq> []"
  by (subst show_nat.simps) simp

lemma replace_append: "replace a r (xs @ ys) = replace a r xs @ replace a r ys"
  by (simp add: replace_def)

lemma replace_Nil: "replace a r [] = []"
  by (simp add: replace_def)

lemma replace_Cons: "replace a r (c # cs) = (if c = a then r else [c]) @ replace a r cs"
  by (simp add: replace_def)

lemma replace_absent: "a \<notin> set xs \<Longrightarrow> replace a r xs = xs"
  by (induction xs) (auto simp: replace_Cons replace_Nil)

lemma replace_concat_map:
  "replace a r (concat (map f xs)) = concat (map (\<lambda>c. replace a r (f c)) xs)"
  by (induction xs) (simp_all add: replace_append replace_Nil)

lemma replace_show_nat: "a < 48 \<Longrightarrow> replace a r (show_nat n) = show_nat n"
  using show_nat_digits [of n] by (intro replace_absent) auto

lemma encode_xmlcharrefreplace_concat_map:
  "encode_xmlcharrefreplace (concat (map f xs)) = concat (map (\<lambda>c. encode_xmlcharrefreplace (f c)) xs)"
  by (induction xs) (simp_all add: encode_xmlcharrefreplace_def)

lemma replace_as_concat: "replace a r s = concat (map (\<lambda>c. replace a r [c]) s)"
  by (simp add: replace_def)

lemma html_escape_append: "html_escape (xs @ ys) q = html_escape xs q @ html_escape ys q"
  by (simp add: html_escape_def Let_def replace_append)

lemma html_escape_Nil: "html_escape [] q = []"
  by (simp add: html_escape_def Let_def replace_Nil)

lemma html_escape_chars: "html_escape s q = concat (map (\<lambda>c. html_escape [c] q) s)"
proof (induction s)
  case Nil
  show ?case by (simp add: html_escape_Nil)
next
  case (Cons c s)
  have "html_escape (c # s) q = html_escape [c] q @ html_escape s q"
    using html_escape_append [of "[c]" s q] by simp
  with Cons show ?case by simp
qed

lemma html_escape_char:
  "html_escape [c] q =
     (if c = 38 then asc ''&amp;'' else if c = 60 then asc ''&lt;''
      else if c = 62 then asc ''&gt;''
      else if c = 34 then (if q then asc ''&quot;'' else [34])
      else if c = 39 then (if q then asc ''&#x27;'' else [39]) else [c])"
  by (simp add: html_escape_def Let_def replace_Cons replace_Nil asc_def)

lemma escape_char_eq:
  "replace 39 (asc ''&#39;'') (encode_xmlcharrefreplace (html_escape [c] q)) = escape_char q c"
  by (simp add: html_escape_char escape_char_def encode_xmlcharrefreplace_def replace_Cons replace_Nil
      replace_append replace_show_nat asc_def)

lemma escape_unicode_chars: "escape_unicode s q = concat (map (escape_char q) (strip s))"
  unfolding escape_unicode_def
  by (subst html_escape_chars)
     (simp add: encode_xmlcharrefreplace_concat_map replace_concat_map escape_char_eq)

section \<open>Pending parameters after a submit\<close>





section \<open>A status code that is not zero\<close>







section \<open>Field criteria\<close>




section \<open>The body of the request\<close>



section \<open>Whitespace around escaped values\<close>

lemma strip_edges:
  "strip s = [] \<or> (\<not> isspace (hd (strip s)) \<and> \<not> isspace (last (strip s)))"
proof -
  define t where "t = dropWhile isspace s"
  define u where "u = dropWhile isspace (rev t)"
  have s: "strip s = rev u" by (simp add: strip_def t_def u_def)
  show ?thesis
  proof (cases "u = []")
    case True
    then show ?thesis by (simp add: s)
  next
    case False
    then have hu: "\<not> isspace (hd u)" unfolding u_def by (rule hd_dropWhile)
    have "rev t = takeWhile isspace (rev t) @ u" by (simp add: u_def)
    then have "last (rev t) = last u" using False by (metis last_appendR)
    moreover have "t \<noteq> []" using False by (auto simp: u_def)
    ultimately have "last u = hd t" by (simp add: last_rev)
    moreover have "\<not> isspace (hd t)" using \<open>t \<noteq> []\<close> unfolding t_def by (rule hd_dropWhile)
    ultimately have lu: "\<not> isspace (last u)" by simp
    from False hu lu show ?thesis by (simp add: s hd_rev last_rev)
  qed
qed

lemma strip_padded:
  assumes "list_all isspace l" and "list_all isspace r"
  shows "strip (l @ s @ r) = strip s"
proof -
  have l: "\<And>x. x \<in> set l \<Longrightarrow> isspace x" and r: "\<And>x. x \<in> set (rev r) \<Longrightarrow> isspace x"
    using assms by (auto simp: list_all_iff)
  have d1: "dropWhile isspace (l @ s @ r) = dropWhile isspace (s @ r)"
    using l by (rule dropWhile_append2)
  show ?thesis
  proof (cases "\<exists>x\<in>set s. \<not> isspace x")
    case True
    then obtain x where "x \<in> set s" "\<not> isspace x" by blast
    then have "dropWhile isspace (s @ r) = dropWhile isspace s @ r"
      by (rule dropWhile_append1)
    then have "rev (dropWhile isspace (l @ s @ r)) = rev r @ rev (dropWhile isspace s)"
      by (simp add: d1)
    then show ?thesis
      using dropWhile_append2 [of "rev r" isspace "rev (dropWhile isspace s)", OF r]
      by (simp add: strip_def)
  next
    case False
    then have "\<And>x. x \<in> set s \<Longrightarrow> isspace x" by blast
    then have a: "dropWhile isspace s = []" and b: "dropWhile isspace (s @ r) = []"
      using assms(2) by (simp_all add: list_all_iff)
    show ?thesis by (simp only: strip_def d1 a b)
  qed
qed

lemma escape_char_nonempty: "escape_char q c \<noteq> []"
  by (simp add: escape_char_def asc_def)

lemma escape_char_edges:
  "\<not> isspace c \<Longrightarrow> \<not> isspace (hd (escape_char q c)) \<and> \<not> isspace (last (escape_char q c))"
  by (simp add: escape_char_def isspace_def asc_def)

lemma hd_concat_map:
  "xs \<noteq> [] \<Longrightarrow> f (hd xs) \<noteq> [] \<Longrightarrow> hd (concat (map f xs)) = hd (f (hd xs))"
  by (cases xs) simp_all

lemma last_concat_map:
  "xs \<noteq> [] \<Longrightarrow> f (last xs) \<noteq> [] \<Longrightarrow> last (concat (map f xs)) = last (f (last xs))"
  by (induction xs) (auto simp: last_append)

text \<open>
  Claim C10. For every string, \<open>escape_unicode\<close> escapes the stripped string character
  by character, so whitespace before and after the value does not change the result,
  and the result neither starts nor ends with whitespace.
\<close>

theorem escape_unicode_strips:
  "escape_unicode s q = concat (map (escape_char q) (strip s))
   \<and> (list_all isspace l \<and> list_all isspace r \<longrightarrow>
        escape_unicode (l @ s @ r) q = escape_unicode s q)
   \<and> (escape_unicode s q \<noteq> [] \<longrightarrow>
        \<not> isspace (hd (escape_unicode s q)) \<and> \<not> isspace (last (escape_unicode s q)))"
proof -
  have pad: "escape_unicode (l @ s @ r) q = escape_unicode s q"
    if "list_all isspace l" "list_all isspace r"
    using strip_padded [OF that] by (simp add: escape_unicode_def)
  have edges: "\<not> isspace (hd (escape_unicode s q)) \<and> \<not> isspace (last (escape_unicode s q))"
    if "escape_unicode s q \<noteq> []"
  proof -
    from that have ne: "strip s \<noteq> []" by (auto simp: escape_unicode_chars)
    with strip_edges [of s] have "\<not> isspace (hd (strip s))" "\<not> isspace (last (strip s))"
      by auto
    then show ?thesis
      using ne escape_char_edges [of "hd (strip s)" q] escape_char_edges [of "last (strip s)" q]
      by (simp add: escape_unicode_chars hd_concat_map last_concat_map escape_char_nonempty)
  qed
  from pad edges show ?thesis by (simp add: escape_unicode_chars)
qed

theorem escape_unicode_strips_witness:
  "escape_unicode (asc '' a<b '') True = asc ''a&lt;b''
   \<and> escape_unicode ([32, 10] @ asc ''a<b'' @ [9]) True = escape_unicode (asc ''a<b'') True
   \<and> \<not> isspace (hd (escape_unicode (asc '' a<b '') True))
   \<and> \<not> isspace (last (escape_unicode (asc '' a<b '') True))"
proof -
  have v: "escape_unicode (asc '' a<b '') True = asc ''a&lt;b''"
    by (simp add: escape_unicode_chars strip_def isspace_def escape_char_def asc_def)
  have ws: "list_all isspace [32, 10]" "list_all isspace [9]"
    by (simp_all add: isspace_def)
  have ne: "escape_unicode (asc '' a<b '') True \<noteq> []"
    unfolding v by (simp add: asc_def)
  have p: "escape_unicode ([32, 10] @ asc ''a<b'' @ [9]) True = escape_unicode (asc ''a<b'') True"
    using escape_unicode_strips [of "asc ''a<b''" True "[32, 10]" "[9]"] ws by blast
  have e: "\<not> isspace (hd (escape_unicode (asc '' a<b '') True))"
    "\<not> isspace (last (escape_unicode (asc '' a<b '') True))"
    using escape_unicode_strips [of "asc '' a<b ''" True "[]" "[]"] ne by blast+
  from v p e show ?thesis by blast
qed

section \<open>Escaped apostrophes\<close>

text \<open>
  Claim C4 at the value \<open><&'\<close> followed by \<open>U+00E9\<close>: the less-than sign and the
  ampersand become entities and the non-ASCII character a numeric reference, but the
  apostrophe comes out as \<open>&#x27;\<close>, not as \<open>&#39;\<close>: \<open>html.escape\<close> has replaced it
  before the replacement by \<open>&#39;\<close> of \<open>escape_unicode\<close> is reached.
\<close>

theorem apostrophe_is_hex_entity:
  "escape_unicode (asc ''<&'' @ [39, 233]) True = asc ''&lt;&amp;&#x27;&#233;''
   \<and> escape_unicode (asc ''<&'' @ [39, 233]) True \<noteq> asc ''&lt;&amp;&#39;&#233;''"
  by (simp add: escape_unicode_def strip_def isspace_def html_escape_def
      encode_xmlcharrefreplace_def replace_def show_nat.simps asc_def)

lemma escape_char_ascii: "list_all (\<lambda>c. c < 128) (escape_char q c)"
proof -
  have "list_all (\<lambda>c. c < 128) (show_nat c)"
    using show_nat_digits [of c] by (auto simp: list_all_iff)
  then show ?thesis by (simp add: escape_char_def asc_def)
qed

lemma escape_unicode_ascii: "list_all (\<lambda>c. c < 128) (escape_unicode s q)"
  using escape_char_ascii by (auto simp: escape_unicode_chars list_all_iff)

lemma decode_value_scalar:
  "maxrepeat md = 1 \<Longrightarrow> children cn = c # cs \<Longrightarrow> etext c = Some v \<Longrightarrow>
   decode_value esc md cn = Inr (VStr (if esc then escape_unicode v True else v))"
  by (simp add: decode_value_def getitem_def convert_type_eq)

section \<open>A find that gives one record\<close>

lemma py_int_0: "py_int (asc ''0'') = Some 0"
  by (simp add: py_int_def strip_def isspace_def isdigit_def asc_def)

lemma py_int_2: "py_int (asc ''2'') = Some 2"
  by (simp add: py_int_def strip_def isspace_def isdigit_def asc_def)

lemma py_int_7: "py_int (asc ''7'') = Some 7"
  by (simp add: py_int_def strip_def isspace_def isdigit_def asc_def)

lemma asc_inject: "asc a = asc b \<longleftrightarrow> a = b"
  by (simp add: asc_def inj_on_def)

lemma find_example:
  "map_sum id resultset (commit_response False [] (Returns [] (Some example_document))) =
     Inr [[(asc ''MODID'', VInt 2), (asc ''RECORDID'', VInt 7), (asc ''LAST'', VStr (asc ''Doe''))]]"
  by (simp add: commit_response_def parse_result_def parse_errorcode_def getitem_def
      example_document_def str_to_int_def py_int_0 py_int_1 py_int_2 py_int_7 Let_def
      FMPXMLResult_init_def FMField_init_def dict_getitem_def DTYPES_def decode_row_def
      decode_value_def convert_type_def dict_update_def asc_inject)

end
